theory Spec2Isabelle
  imports Complex_Main "HOL-Library.Log_Nat" "HOL-Library.Sublist"
begin

section \<open>Single-precision values\<close>

text \<open>
  The scripts compute their scores in \<^verbatim>\<open>tf.float32\<close>. A finite float32 is modelled by
  the rational number it denotes; \<open>round32\<close> is IEEE 754 rounding to nearest, ties to
  even, onto 24 significant bits (exponent of the last place at least \<open>-149\<close>, which
  covers the subnormal numbers). Overflow to infinity does not arise where \<open>round32\<close>
  is used: every value rounded comes from an int32, at most \<open>2 ^ 31\<close> in size.
\<close>

definition floor_log2 :: "rat \<Rightarrow> int" where
  \<comment> \<open>for \<open>0 < x\<close>: the \<open>e\<close> with \<open>2 powi e \<le> x < 2 powi (e + 1)\<close>\<close>
  "floor_log2 x = (let (p, q) = quotient_of x; d = bitlen p - bitlen q
                   in if 2 powi d \<le> x then d else d - 1)"

definition round_half_even :: "rat \<Rightarrow> int" where
  "round_half_even x = (let f = \<lfloor>x\<rfloor>; r = x - of_int f
                        in if r < 1 / 2 then f else if 1 / 2 < r then f + 1
                           else if even f then f else f + 1)"

definition round32 :: "rat \<Rightarrow> rat" where
  "round32 x = (if x = 0 then 0
                else let e = max (floor_log2 \<bar>x\<bar> - 23) (- 149)
                     in sgn x * of_int (round_half_even (\<bar>x\<bar> / 2 powi e)) * 2 powi e)"

section \<open>Tensors and the operations the scripts call\<close>

text \<open>
  A \<^verbatim>\<open>tf.string\<close> element is a byte string: \<open>string\<close> is a list of 8-bit characters,
  and \<^verbatim>\<open>tf.strings.length\<close> (default unit BYTE) counts them into an int32, so a count
  of \<open>2 ^ 31\<close> or more wraps around. A rank-1 tensor is a list, a rank-2 tensor a list
  of rows. The element type of the float tensors is a parameter: \<open>rat\<close> where the
  arithmetic is followed bit for bit, \<open>real\<close> for the dense layers.
\<close>

datatype 'a tensor =
    Float32 "'a list"
  | Int32 "int list"
  | Float32_2D "'a list list"
  | Bool_2D "bool list list"

fun batch_length :: "'a tensor \<Rightarrow> nat" where
  "batch_length (Float32 xs) = length xs"
| "batch_length (Int32 ns) = length ns"
| "batch_length (Float32_2D rows) = length rows"
| "batch_length (Bool_2D rows) = length rows"

definition int32_of_nat :: "nat \<Rightarrow> int" where
  "int32_of_nat n = (int n + 2 ^ 31) mod 2 ^ 32 - 2 ^ 31"

definition strings_length :: "string list \<Rightarrow> int list" where
  "strings_length input = map (\<lambda>s. int32_of_nat (length s)) input"

definition cast_float32 :: "int list \<Rightarrow> rat list" where
  "cast_float32 ns = map (\<lambda>n. round32 (of_int n)) ns"

text \<open>
  \<^verbatim>\<open>lengths_float / 100.0\<close> stands inside a traced \<^verbatim>\<open>tf.function\<close>, and the divisor is
  a constant: the graph that runs multiplies by the float32 reciprocal of the constant
  instead of dividing. The quotient of the code is therefore the rounded product with
  the rounded reciprocal, two roundings, not the rounded exact quotient.
\<close>

definition divide_float32 :: "rat list \<Rightarrow> rat \<Rightarrow> rat list" where
  "divide_float32 xs c = map (\<lambda>x. round32 (x * round32 (1 / c))) xs"

definition minimum :: "rat list \<Rightarrow> rat \<Rightarrow> rat list" where
  "minimum xs c = map (\<lambda>x. min x c) xs"

section \<open>create\_tf\_serving\_model.py: the mock-length predictor\<close>

definition predict :: "string list \<Rightarrow> (string \<times> rat tensor) list" where
  "predict input_text =
     (let lengths = strings_length input_text;
          lengths_float = cast_float32 lengths;
          normalized = divide_float32 lengths_float 100;
          scores = minimum normalized 1
      in [(''toxicity_score'', Float32 scores),
          (''text_length'', Int32 lengths),
          (''predictions'', Float32 scores)])"

section \<open>create\_toxicity\_model.py: the random-weights predictor\<close>

text \<open>
  The weights of the two \<^verbatim>\<open>Dense\<close> layers are drawn at random when the model is first
  called, so they are fields of the model. A kernel has one row per input feature and
  one column per unit. The order in which the float32 kernels accumulate a dot product
  and the way they evaluate the sigmoid are not fixed by the script, so the layers are
  computed over the reals. Float32 layers can overflow to an infinity or a NaN where
  real ones cannot; \<open>initialised\<close> describes the weights the script itself produces
  (the default initialisers of \<^verbatim>\<open>Dense\<close>: Glorot uniform kernels, zero biases; the script
  never trains), for which no float32 intermediate leaves the finite range: a
  feature is an int32, a kernel entry is below 0.6 in size, and a unit sums at most
  16 products.
\<close>

record ToxicityModel =
  dense1_kernel :: "real list list"
  dense1_bias :: "real list"
  dense2_kernel :: "real list list"
  dense2_bias :: "real list"

definition built :: "ToxicityModel \<Rightarrow> bool" where
  \<comment> \<open>the shapes after the first call on a \<open>[N, 1]\<close> input: \<open>Dense(16)\<close>, then \<open>Dense(1)\<close>\<close>
  "built self \<longleftrightarrow>
     length (dense1_kernel self) = 1 \<and> list_all (\<lambda>r. length r = 16) (dense1_kernel self) \<and>
     length (dense1_bias self) = 16 \<and>
     length (dense2_kernel self) = 16 \<and> list_all (\<lambda>r. length r = 1) (dense2_kernel self) \<and>
     length (dense2_bias self) = 1"

definition glorot_uniform :: "nat \<Rightarrow> nat \<Rightarrow> real \<Rightarrow> bool" where
  \<comment> \<open>a value the initialiser can draw: at most \<open>sqrt (6 / (fan_in + fan_out))\<close> in size\<close>
  "glorot_uniform fan_in fan_out w \<longleftrightarrow> w * w * real (fan_in + fan_out) \<le> 6"

definition initialised :: "ToxicityModel \<Rightarrow> bool" where
  "initialised self \<longleftrightarrow>
     built self \<and>
     list_all (list_all (glorot_uniform 1 16)) (dense1_kernel self) \<and>
     list_all (\<lambda>b. b = 0) (dense1_bias self) \<and>
     list_all (list_all (glorot_uniform 16 1)) (dense2_kernel self) \<and>
     list_all (\<lambda>b. b = 0) (dense2_bias self)"

definition relu :: "real \<Rightarrow> real" where
  "relu x = max 0 x"

definition sigmoid :: "real \<Rightarrow> real" where
  "sigmoid x = 1 / (1 + exp (- x))"

definition matmul_row :: "real list \<Rightarrow> real list list \<Rightarrow> real list" where
  "matmul_row x w = map (\<lambda>column. sum_list (map2 (*) x column)) (transpose w)"

definition Dense :: "(real \<Rightarrow> real) \<Rightarrow> real list list \<Rightarrow> real list \<Rightarrow> real list list \<Rightarrow> real list list" where
  "Dense activation w bias inputs =
     map (\<lambda>x. map activation (map2 (+) (matmul_row x w) bias)) inputs"

definition preprocess :: "string \<Rightarrow> rat" where
  "preprocess text = round32 (of_int (int32_of_nat (length text)))"

definition reshape_column :: "rat list \<Rightarrow> real list list" where
  \<comment> \<open>\<^verbatim>\<open>tf.reshape(features, [-1, 1])\<close>\<close>
  "reshape_column features = map (\<lambda>f. [of_rat f]) features"

definition serve :: "ToxicityModel \<Rightarrow> string list \<Rightarrow> (string \<times> real tensor) list" where
  "serve self text =
     (let features = map preprocess text;
          features = reshape_column features;
          x = Dense relu (dense1_kernel self) (dense1_bias self) features;
          toxicity = Dense sigmoid (dense2_kernel self) (dense2_bias self) x
      in [(''toxicity_score'', Float32_2D toxicity),
          (''is_toxic'', Bool_2D (map (map (\<lambda>t. 1 / 2 < t)) toxicity))])"

section \<open>The file system and the steps of an export\<close>

text \<open>
  A path is its list of components below the root; the file system maps a path to what
  is there. Permissions, links and a full disk are not modelled, so a step of
  \<^verbatim>\<open>os\<close> or \<^verbatim>\<open>shutil\<close> fails only where the kind of a node forbids it. Every step
  returns the exception it raised, if any, and the file system it left behind.
\<close>

type_synonym path = "string list"

datatype node = Dir | File string

type_synonym filesystem = "path \<Rightarrow> node option"

datatype py_exception =
    FileNotFoundError
  | NotADirectoryError
  | FileExistsError
  | URLError
  | UnicodeEncodeError
  | Error string
  | KeyboardInterrupt

text \<open>
  The first four are subclasses of \<^verbatim>\<open>OSError\<close>, of which \<^verbatim>\<open>IOError\<close> is another name;
  \<^verbatim>\<open>URLError\<close> is what \<^verbatim>\<open>urllib\<close> raises for a host it cannot reach and, as its
  subclass \<^verbatim>\<open>HTTPError\<close>, for an address the server does not know. \<open>Error\<close> stands for
  any other subclass of \<^verbatim>\<open>Exception\<close> that TensorFlow raises, with its message.
  \<^verbatim>\<open>KeyboardInterrupt\<close> derives from \<^verbatim>\<open>BaseException\<close> only.
\<close>

definition isinstance_Exception :: "py_exception \<Rightarrow> bool" where
  "isinstance_Exception e \<longleftrightarrow> e \<noteq> KeyboardInterrupt"

fun isinstance_OSError :: "py_exception \<Rightarrow> bool" where
  "isinstance_OSError FileNotFoundError = True"
| "isinstance_OSError NotADirectoryError = True"
| "isinstance_OSError FileExistsError = True"
| "isinstance_OSError URLError = True"
| "isinstance_OSError UnicodeEncodeError = False"
| "isinstance_OSError (Error m) = False"
| "isinstance_OSError KeyboardInterrupt = False"

type_synonym run = "py_exception option \<times> filesystem"

definition and_then :: "run \<Rightarrow> (filesystem \<Rightarrow> run) \<Rightarrow> run" where
  "and_then r next_step = (case r of (Some e, fs) \<Rightarrow> (Some e, fs) | (None, fs) \<Rightarrow> next_step fs)"

definition os_path_exists :: "filesystem \<Rightarrow> path \<Rightarrow> bool" where
  "os_path_exists fs p \<longleftrightarrow> fs p \<noteq> None"

definition shutil_rmtree :: "filesystem \<Rightarrow> path \<Rightarrow> run" where
  "shutil_rmtree fs p =
     (case fs p of
        None \<Rightarrow> (Some FileNotFoundError, fs)
      | Some (File _) \<Rightarrow> (Some NotADirectoryError, fs)
      | Some Dir \<Rightarrow> (None, \<lambda>q. if prefix p q then None else fs q))"

fun makedirs_from :: "filesystem \<Rightarrow> path \<Rightarrow> string list \<Rightarrow> run" where
  "makedirs_from fs made [] = (None, fs)"
| "makedirs_from fs made (c # cs) =
     (case fs (made @ [c]) of
        None \<Rightarrow> makedirs_from (fs(made @ [c] \<mapsto> Dir)) (made @ [c]) cs
      | Some Dir \<Rightarrow> makedirs_from fs (made @ [c]) cs
      | Some (File _) \<Rightarrow> (Some (if cs = [] then FileExistsError else NotADirectoryError), fs))"

definition os_makedirs :: "filesystem \<Rightarrow> path \<Rightarrow> run" where
  \<comment> \<open>\<^verbatim>\<open>os.makedirs(p, exist_ok=True)\<close>, \<open>p\<close> absolute: the missing ancestors first, then \<open>p\<close>\<close>
  "os_makedirs fs p = makedirs_from fs [] p"

definition os_makedirs_below :: "filesystem \<Rightarrow> path \<Rightarrow> string list \<Rightarrow> run" where
  \<comment> \<open>\<^verbatim>\<open>os.makedirs(p, exist_ok=True)\<close> where \<open>p\<close> starts from a place that \<^verbatim>\<open>os.makedirs\<close>
      cannot create, the working directory or a drive: that place has to be there\<close>
  "os_makedirs_below fs start cs =
     (if start = [] then makedirs_from fs start cs
      else case fs start of
        None \<Rightarrow> (Some FileNotFoundError, fs)
      | Some (File _) \<Rightarrow> (Some NotADirectoryError, fs)
      | Some Dir \<Rightarrow> makedirs_from fs start cs)"

text \<open>
  What TensorFlow, the hub client and the terminal do is outside the repository and is
  a parameter of a run: whether standard output can encode the pictographs of the
  status lines, which nodes \<^verbatim>\<open>tf.saved_model.save\<close> writes below the export directory,
  whether tracing, saving or loading raises, how the hub answers a request, and which
  nodes the hub client leaves in its own download cache.
\<close>

datatype hub_answer = Module_found | Unreachable | Invalid_identifier

record tf_env =
  stdout_unicode :: bool
  trace_raises :: "py_exception option"
  save_writes :: "(path \<times> node) list"
  save_raises :: "py_exception option"
  load_raises :: "py_exception option"
  hub :: "string \<Rightarrow> hub_answer"
  hub_cache_nodes :: "(path \<times> node) list"

definition print_line :: "tf_env \<Rightarrow> string \<Rightarrow> filesystem \<Rightarrow> run" where
  \<comment> \<open>\<^verbatim>\<open>print\<close> raises when standard output cannot encode a character of the line\<close>
  "print_line env line fs =
     (if stdout_unicode env \<or> list_all (\<lambda>c. (of_char c :: nat) < 128) line then None
      else Some UnicodeEncodeError, fs)"

definition written_paths :: "tf_env \<Rightarrow> path \<Rightarrow> path list" where
  "written_paths env export_dir = map (\<lambda>(rel, n). export_dir @ rel) (save_writes env)"

definition saved_model_save :: "tf_env \<Rightarrow> filesystem \<Rightarrow> path \<Rightarrow> run" where
  "saved_model_save env fs export_dir =
     (save_raises env, fold (\<lambda>(rel, n) f. f(export_dir @ rel \<mapsto> n)) (save_writes env) fs)"

definition saved_model_load :: "tf_env \<Rightarrow> filesystem \<Rightarrow> path \<Rightarrow> run" where
  "saved_model_load env fs export_dir = (load_raises env, fs)"

definition hub_load :: "tf_env \<Rightarrow> string \<Rightarrow> filesystem \<Rightarrow> run" where
  \<comment> \<open>the client first sets up its cache, creating what is not there yet, then asks the hub\<close>
  "hub_load env url fs =
     (case hub env url of Module_found \<Rightarrow> None | Unreachable \<Rightarrow> Some URLError
        | Invalid_identifier \<Rightarrow> Some URLError,
      fold (\<lambda>(p, n) f. if f p = None then f(p \<mapsto> n) else f) (hub_cache_nodes env) fs)"

section \<open>The three scripts\<close>

text \<open>
  A status line is kept as the step that prints its literal text (a formatted field
  is left out), since printing can raise; what it prints is not recorded. The loops that list the exported directory
  are left out: the names they print are taken to be printable. Of the output, the
  report of the \<^verbatim>\<open>except\<close> clause and the traceback of an uncaught exception are
  recorded.
\<close>

definition check_mark :: string where
  "check_mark = [CHR 0xE2, CHR 0x9C, CHR 0x85]"

definition cross_mark :: string where
  "cross_mark = [CHR 0xE2, CHR 0x9D, CHR 0x8C]"

definition file_folder :: string where
  "file_folder = [CHR 0xF0, CHR 0x9F, CHR 0x93, CHR 0x81]"

definition clipboard :: string where
  "clipboard = [CHR 0xF0, CHR 0x9F, CHR 0x93, CHR 0x8B]"

definition model_dir :: path where
  "model_dir = [''mnt'', ''d'', ''ivan'', ''models'', ''toxicity_model'', ''1'']"

definition create_serving_model :: "tf_env \<Rightarrow> filesystem \<Rightarrow> run" where
  "create_serving_model env fs0 =
     and_then (if os_path_exists fs0 model_dir then shutil_rmtree fs0 model_dir else (None, fs0))
       (\<lambda>fs. and_then (os_makedirs fs model_dir)
       (\<lambda>fs. and_then (print_line env ''Creating model with TensorFlow '' fs)
       (\<lambda>fs. and_then (trace_raises env, fs)
       (\<lambda>fs. and_then (saved_model_save env fs model_dir)
       (\<lambda>fs. and_then (print_line env (check_mark @ '' Model created successfully'') fs)
       (\<lambda>fs. and_then (print_line env (file_folder @ '' Model saved to: '') fs)
       (\<lambda>fs. and_then (print_line env (CHR 0x0A # clipboard @ '' Verifying saved model...'') fs)
       (\<lambda>fs. and_then (saved_model_load env fs model_dir)
       (\<lambda>fs. and_then (print_line env (check_mark @ '' Model loads correctly'') fs)
       (\<lambda>fs. print_line env (CHR 0x0A # file_folder @ '' Created files:'') fs))))))))))"

definition model_path :: "path \<Rightarrow> path" where
  \<comment> \<open>from the absolute path of the script: two \<^verbatim>\<open>dirname\<close>s up, then \<^verbatim>\<open>toxicity_model/1\<close>\<close>
  "model_path script_file = butlast (butlast script_file) @ [''toxicity_model'', ''1'']"

definition create_toxicity_model :: "tf_env \<Rightarrow> path \<Rightarrow> filesystem \<Rightarrow> run" where
  "create_toxicity_model env script_file fs0 =
     and_then (print_line env ''Creating model at: '' fs0)
       (\<lambda>fs. and_then (os_makedirs fs (model_path script_file))
       (\<lambda>fs. and_then (print_line env ''Building model...'' fs)
       (\<lambda>fs. and_then (trace_raises env, fs)
       (\<lambda>fs. and_then (print_line env ''Saving model to ...'' fs)
       (\<lambda>fs. and_then (saved_model_save env fs (model_path script_file))
       (\<lambda>fs. and_then (print_line env (check_mark @ '' Model created successfully!'') fs)
       (\<lambda>fs. and_then (print_line env (file_folder @ '' Model location: '') fs)
       (\<lambda>fs. print_line env (CHR 0x0A # clipboard @ '' Created files:'') fs))))))))"

definition model_url :: string where
  "model_url = ''https://tfhub.dev/tensorflow/toxicity/1''"

text \<open>
  The destination of the third script is the literal \<^verbatim>\<open>D:\ivan\models\toxicity_model\1\<close>.
  On Windows it names four directories below the drive \<^verbatim>\<open>D:\<close>; elsewhere a backslash
  is an ordinary character and the literal is one name, relative to the working
  directory. Neither the drive nor the working directory can be created by
  \<^verbatim>\<open>os.makedirs\<close>.
\<close>

datatype platform = Posix path | Windows

definition model_dir_literal :: string where
  "model_dir_literal = ''D:'' @ [CHR 0x5C] @ ''ivan'' @ [CHR 0x5C] @ ''models'' @ [CHR 0x5C]
     @ ''toxicity_model'' @ [CHR 0x5C] @ ''1''"

fun start_of :: "platform \<Rightarrow> path" where
  "start_of (Posix cwd) = cwd"
| "start_of Windows = [''D:'']"

fun below_start :: "platform \<Rightarrow> string list" where
  "below_start (Posix cwd) = [model_dir_literal]"
| "below_start Windows = [''ivan'', ''models'', ''toxicity_model'', ''1'']"

definition hub_model_dir :: "platform \<Rightarrow> path" where
  "hub_model_dir pf = start_of pf @ below_start pf"

definition download_pretrained_model :: "tf_env \<Rightarrow> platform \<Rightarrow> filesystem \<Rightarrow> run" where
  "download_pretrained_model env pf fs0 =
     and_then (print_line env ''Script started...'' fs0)
       (\<lambda>fs. and_then (print_line env ''Imports done.'' fs)
       (\<lambda>fs. and_then (print_line env ''Downloading pretrained toxicity model...'' fs)
       (\<lambda>fs. and_then (os_makedirs_below fs (start_of pf) (below_start pf))
       (\<lambda>fs. and_then (hub_load env model_url fs)
       (\<lambda>fs. and_then (print_line env ''Model downloaded from TF Hub.'' fs)
       (\<lambda>fs. and_then (saved_model_save env fs (hub_model_dir pf))
       (\<lambda>fs. and_then (print_line env (check_mark @ '' Model saved at '') fs)
       (\<lambda>fs. print_line env ''Saved model contents:'' fs))))))))"

datatype report =
    Error_line py_exception
  | Traceback py_exception

datatype ending = Exited nat | Interrupted

record process =
  ending :: ending
  propagated :: "py_exception option"
  printed :: "report list"
  files :: filesystem

definition interpreter_exit :: "run \<Rightarrow> process" where
  \<comment> \<open>the script has run to its end, or an exception has left it: the interpreter prints
      the traceback and exits with status 1; after a \<^verbatim>\<open>KeyboardInterrupt\<close> it ends the
      process as the interrupt itself would (on Posix, killed by SIGINT)\<close>
  "interpreter_exit r =
     (case r of
        (None, fs) \<Rightarrow> \<lparr>ending = Exited 0, propagated = None, printed = [], files = fs\<rparr>
      | (Some e, fs) \<Rightarrow>
          \<lparr>ending = (if e = KeyboardInterrupt then Interrupted else Exited 1),
           propagated = Some e, printed = [Traceback e], files = fs\<rparr>)"

definition main :: "tf_env \<Rightarrow> filesystem \<Rightarrow> process" where
  \<comment> \<open>the \<^verbatim>\<open>__main__\<close> block of create\_tf\_serving\_model.py; its \<^verbatim>\<open>print\<close> can raise in
      turn, \<^verbatim>\<open>traceback.print_exc\<close> writes to standard error and does not\<close>
  "main env fs0 =
     (case create_serving_model env fs0 of
        (Some e, fs) \<Rightarrow>
          if isinstance_Exception e
          then (case print_line env (cross_mark @ '' Error: '') fs of
                  (None, fs') \<Rightarrow>
                    \<lparr>ending = Exited 0, propagated = None,
                     printed = [Error_line e, Traceback e], files = fs'\<rparr>
                | (Some e', fs') \<Rightarrow> interpreter_exit (Some e', fs'))
          else interpreter_exit (Some e, fs)
      | (None, fs) \<Rightarrow> interpreter_exit (None, fs))"

definition main_create_toxicity_model :: "tf_env \<Rightarrow> path \<Rightarrow> filesystem \<Rightarrow> process" where
  "main_create_toxicity_model env script_file fs0 = interpreter_exit (create_toxicity_model env script_file fs0)"

definition main_download_pretrained_model :: "tf_env \<Rightarrow> platform \<Rightarrow> filesystem \<Rightarrow> process" where
  "main_download_pretrained_model env pf fs0 = interpreter_exit (download_pretrained_model env pf fs0)"

section \<open>A well-formed file system, and the inputs of the examples\<close>

definition tree_shaped :: "filesystem \<Rightarrow> bool" where
  \<comment> \<open>whatever exists below the top level lies in an existing directory\<close>
  "tree_shaped fs \<longleftrightarrow> (\<forall>q c. fs (q @ [c]) \<noteq> None \<longrightarrow> q = [] \<or> fs q = Some Dir)"

definition zero_model :: ToxicityModel where
  "zero_model =
     \<lparr>dense1_kernel = [[0, 0, 0, 0, 0, 0, 0, 0, 0, 0, 0, 0, 0, 0, 0, 0]],
      dense1_bias = [0, 0, 0, 0, 0, 0, 0, 0, 0, 0, 0, 0, 0, 0, 0, 0],
      dense2_kernel = [[0], [0], [0], [0], [0], [0], [0], [0], [0], [0], [0], [0], [0], [0], [0], [0]],
      dense2_bias = [0]\<rparr>"

definition artifact :: "(path \<times> node) list" where
  "artifact =
     [([''saved_model.pb''], File ''graph''),
      ([''variables''], Dir),
      ([''variables'', ''variables.index''], File ''index''),
      ([''variables'', ''variables.data-00000-of-00001''], File ''weights''),
      ([''assets''], Dir)]"

definition env_ok :: tf_env where
  "env_ok = \<lparr>stdout_unicode = True, trace_raises = None, save_writes = artifact,
            save_raises = None, load_raises = None, hub = (\<lambda>url. Module_found),
            hub_cache_nodes = [([''tmp''], Dir), ([''tmp'', ''tfhub_modules''], Dir)]\<rparr>"

definition env_save_fails :: tf_env where
  "env_save_fails = env_ok\<lparr>save_writes := [], save_raises := Some (Error ''cannot write'')\<rparr>"

definition env_ascii_stdout :: tf_env where
  "env_ascii_stdout = env_save_fails\<lparr>stdout_unicode := False\<rparr>"

definition env_unreachable :: tf_env where
  "env_unreachable = env_ok\<lparr>hub := (\<lambda>url. Unreachable)\<rparr>"

definition env_interrupted :: tf_env where
  "env_interrupted = env_ok\<lparr>save_raises := Some KeyboardInterrupt\<rparr>"

definition empty_fs :: filesystem where
  "empty_fs = (\<lambda>q. None)"

definition dirs_to :: "path \<Rightarrow> filesystem" where
  \<comment> \<open>the directory \<open>d\<close> with its ancestors, and nothing else\<close>
  "dirs_to d = (\<lambda>q. if prefix q d \<and> q \<noteq> [] then Some Dir else None)"

definition stale_in :: "path \<Rightarrow> filesystem" where
  \<comment> \<open>the directory \<open>d\<close> with its ancestors, holding the one file \<^verbatim>\<open>stale.txt\<close>\<close>
  "stale_in d = (\<lambda>q. if q = d @ [''stale.txt''] then Some (File ''old'')
                     else if prefix q d \<and> q \<noteq> [] then Some Dir else None)"

definition script_file :: path where
  "script_file = [''mnt'', ''d'', ''ivan'', ''models'', ''scripts'', ''create_toxicity_model.py'']"

definition home :: path where
  "home = [''home'', ''ivan'']"

lemmas run_defs = create_serving_model_def create_toxicity_model_def download_pretrained_model_def
  os_path_exists_def shutil_rmtree_def stale_in_def dirs_to_def model_dir_def hub_model_dir_def
  model_path_def os_makedirs_def os_makedirs_below_def saved_model_save_def saved_model_load_def
  hub_load_def print_line_def env_ok_def artifact_def written_paths_def script_file_def home_def
  empty_fs_def env_unreachable_def env_interrupted_def env_save_fails_def env_ascii_stdout_def
  model_url_def model_dir_literal_def check_mark_def cross_mark_def file_folder_def clipboard_def

section \<open>Rounding to single precision\<close>

lemma bitlen_powi_bounds:
  assumes "0 < n"
  shows "(2::rat) powi (bitlen n - 1) \<le> of_int n" and "of_int n < (2::rat) powi bitlen n"
proof -
  from assms have b: "1 \<le> bitlen n"
    using bitlen_eq_zero_iff [of n] bitlen_nonneg [of n] by linarith
  from bitlen_bounds [OF assms]
  have lo: "2 ^ nat (bitlen n - 1) \<le> n" and hi: "n < 2 ^ nat (bitlen n)" by simp_all
  have "(2::rat) powi (bitlen n - 1) = of_int (2 ^ nat (bitlen n - 1))"
    using b by (simp add: power_int_def)
  also have "\<dots> \<le> of_int n" using lo by (simp only: of_int_le_iff)
  finally show "(2::rat) powi (bitlen n - 1) \<le> of_int n" .
  have "(of_int n :: rat) < of_int (2 ^ nat (bitlen n))" using hi by (simp only: of_int_less_iff)
  also have "\<dots> = 2 powi bitlen n" using b by (simp add: power_int_def)
  finally show "of_int n < (2::rat) powi bitlen n" .
qed

lemma floor_log2_bounds:
  assumes "0 < x"
  shows "2 powi floor_log2 x \<le> x" and "x < 2 powi (floor_log2 x + 1)"
proof -
  obtain p q where pq: "quotient_of x = (p, q)" by (cases "quotient_of x")
  then have q: "0 < q" and x: "x = of_int p / of_int q"
    using quotient_of_denom_pos [OF pq] quotient_of_div [OF pq] by simp_all
  from assms q x have p: "0 < p" by (simp add: zero_less_divide_iff)
  define d where "d = bitlen p - bitlen q"
  have fl: "floor_log2 x = (if 2 powi d \<le> x then d else d - 1)"
    by (simp add: floor_log2_def pq d_def Let_def)
  have qpos: "(0::rat) < of_int q" using q by simp
  have "x \<le> of_int p / 2 powi (bitlen q - 1)"
    unfolding x using bitlen_powi_bounds(1) [OF q] p
    by (intro frac_le) simp_all
  also have "\<dots> < 2 powi bitlen p / 2 powi (bitlen q - 1)"
    using bitlen_powi_bounds(2) [OF p] by (simp add: divide_strict_right_mono)
  also have "\<dots> = 2 powi (d + 1)"
    by (simp add: d_def power_int_diff [symmetric] algebra_simps)
  finally have hi: "x < 2 powi (d + 1)" .
  have "(2::rat) powi (d - 1) = 2 powi (bitlen p - 1) / 2 powi bitlen q"
    by (simp add: d_def power_int_diff [symmetric] algebra_simps)
  also have "\<dots> \<le> of_int p / 2 powi bitlen q"
    using bitlen_powi_bounds(1) [OF p] by (simp add: divide_right_mono)
  also have "\<dots> \<le> x"
    unfolding x using bitlen_powi_bounds(2) [OF q] p qpos
    by (intro frac_le) simp_all
  finally have lo: "2 powi (d - 1) \<le> x" .
  show "2 powi floor_log2 x \<le> x" using lo by (simp add: fl)
  show "x < 2 powi (floor_log2 x + 1)" using hi by (simp add: fl not_le)
qed

lemma powi2_less_D: "(2::rat) powi m < 2 powi n \<Longrightarrow> m < n"
proof (rule ccontr)
  assume a: "(2::rat) powi m < 2 powi n" and "\<not> m < n"
  then have "n \<le> m" by simp
  then have "(2::rat) powi n \<le> 2 powi m" by (rule power_int_increasing) simp
  with a show False by simp
qed

lemma floor_log2_ge:
  assumes "2 powi k \<le> x"
  shows "k \<le> floor_log2 x"
proof -
  have "(0::rat) < 2 powi k" by simp
  with assms have x: "0 < x" by linarith
  have "(2::rat) powi k < 2 powi (floor_log2 x + 1)"
    using assms floor_log2_bounds(2) [OF x] by linarith
  then have "k < floor_log2 x + 1" by (rule powi2_less_D)
  then show ?thesis by simp
qed

lemma floor_log2_less:
  assumes "0 < x" "x < 2 powi k"
  shows "floor_log2 x < k"
proof -
  have "(2::rat) powi floor_log2 x < 2 powi k"
    using assms floor_log2_bounds(1) [OF assms(1)] by linarith
  then show ?thesis by (rule powi2_less_D)
qed

lemma round_half_even_ge: "of_int m \<le> x \<Longrightarrow> m \<le> round_half_even x"
proof -
  assume "of_int m \<le> x"
  then have "m \<le> \<lfloor>x\<rfloor>" by (simp add: le_floor_iff)
  then show ?thesis by (simp add: round_half_even_def Let_def)
qed

lemma round_half_even_le: "x \<le> of_int m \<Longrightarrow> round_half_even x \<le> m"
proof -
  assume h: "x \<le> of_int m"
  show ?thesis
  proof (cases "x = of_int m")
    case True
    then show ?thesis by (simp add: round_half_even_def Let_def)
  next
    case False
    with h have "x < of_int m" by simp
    then have "\<lfloor>x\<rfloor> < m" by (simp add: floor_less_iff)
    then show ?thesis by (simp add: round_half_even_def Let_def)
  qed
qed

lemma round_half_even_of_int [simp]: "round_half_even (of_int m) = m"
  by (simp add: round_half_even_def Let_def)


lemma round32_ge:
  assumes m: "2 ^ 23 \<le> m" and m': "m \<le> 2 ^ 24" and j: "- 149 \<le> j" and x: "of_int m * 2 powi j \<le> x"
  shows "of_int m * 2 powi j \<le> round32 x"
proof -
  have mpos: "(0::rat) < of_int m" using m by simp
  have r: "(2::rat) powi (23 + j) \<le> of_int m * 2 powi j"
  proof -
    have "(2::rat) powi (23 + j) = 2 ^ 23 * 2 powi j" by (simp add: power_int_add)
    also have "\<dots> \<le> of_int m * 2 powi j"
    proof (rule mult_right_mono)
      have "(of_int (2 ^ 23) :: rat) \<le> of_int m" using m by (simp only: of_int_le_iff)
      then show "(2::rat) ^ 23 \<le> of_int m" by simp
    qed simp
    finally show ?thesis .
  qed
  have xpos: "0 < x"
  proof -
    have "(0::rat) < 2 powi (23 + j)" by simp
    with r x show ?thesis by linarith
  qed
  define e where "e = max (floor_log2 \<bar>x\<bar> - 23) (- 149)"
  have "23 + j \<le> floor_log2 x" using r x by (intro floor_log2_ge) linarith
  then have ej: "j \<le> e" using j xpos by (simp add: e_def)
  have ele: "floor_log2 x - 23 \<le> e" using xpos by (simp add: e_def)
  have val: "round32 x = of_int (round_half_even (x / 2 powi e)) * 2 powi e"
    using xpos by (simp add: round32_def e_def Let_def)
  have pe: "(0::rat) < 2 powi e" by simp
  show ?thesis
  proof (cases "e = j")
    case True
    have "of_int m \<le> x / 2 powi e" using x True by (simp add: pos_le_divide_eq)
    then have "m \<le> round_half_even (x / 2 powi e)" by (rule round_half_even_ge)
    then have "(of_int m :: rat) \<le> of_int (round_half_even (x / 2 powi e))"
      by (simp only: of_int_le_iff)
    then have "(of_int m :: rat) * 2 powi e \<le> of_int (round_half_even (x / 2 powi e)) * 2 powi e"
      by (rule mult_right_mono) simp
    then show ?thesis using True by (simp add: val)
  next
    case False
    with ej have lt: "j < e" by simp
    then have e149: "e \<noteq> - 149" using j by simp
    then have efl: "e = floor_log2 x - 23" using xpos by (simp add: e_def max_def split: if_splits)
    have "(2::rat) powi (23 + e) \<le> x"
      using floor_log2_bounds(1) [OF xpos] by (simp add: efl)
    then have "(2::rat) ^ 23 * 2 powi e \<le> x" by (simp add: power_int_add)
    then have "of_int (2 ^ 23) \<le> x / 2 powi e" by (simp add: pos_le_divide_eq)
    then have "2 ^ 23 \<le> round_half_even (x / 2 powi e)" by (rule round_half_even_ge)
    then have "(of_int (2 ^ 23) :: rat) \<le> of_int (round_half_even (x / 2 powi e))"
      by (simp only: of_int_le_iff)
    then have "(2::rat) ^ 23 * 2 powi e \<le> round32 x"
      unfolding val by (intro mult_right_mono) simp_all
    moreover have "of_int m * 2 powi j \<le> (2::rat) ^ 23 * 2 powi e"
    proof -
      have "(of_int m :: rat) \<le> of_int (2 ^ 24)" using m' by (simp only: of_int_le_iff)
      then have "(of_int m :: rat) * 2 powi j \<le> 2 ^ 24 * 2 powi j"
        by (intro mult_right_mono) simp_all
      also have "\<dots> = 2 ^ 23 * 2 powi (j + 1)" by (simp add: power_int_add)
      also have "\<dots> \<le> 2 ^ 23 * 2 powi e"
        using lt by (intro mult_left_mono power_int_increasing) simp_all
      finally show ?thesis .
    qed
    ultimately show ?thesis by linarith
  qed
qed


lemma round32_le:
  assumes x: "0 < x" and xk: "x \<le> 2 powi k" and k: "- 125 \<le> k"
  shows "round32 x \<le> 2 powi k"
proof (cases "x = 2 powi k")
  case True
  have "k \<le> floor_log2 x" using True by (intro floor_log2_ge) simp
  moreover have "floor_log2 x < k + 1"
    using x True by (intro floor_log2_less) (simp_all add: power_int_add)
  ultimately have fl: "floor_log2 x = k" by simp
  have e: "max (floor_log2 \<bar>x\<bar> - 23) (- 149) = k - 23" using x k fl by simp
  have "x / 2 powi (k - 23) = of_int (2 ^ 23)"
    unfolding True by (simp add: power_int_diff)
  then have "round_half_even (x / 2 powi (k - 23)) = 2 ^ 23"
    by (simp only: round_half_even_of_int)
  then have "round32 x = 2 ^ 23 * 2 powi (k - 23)"
    using x e by (simp add: round32_def Let_def)
  then show ?thesis by (simp add: power_int_diff)
next
  case False
  with xk have lt: "x < 2 powi k" by simp
  define e where "e = max (floor_log2 \<bar>x\<bar> - 23) (- 149)"
  have "floor_log2 x < k" using x lt by (rule floor_log2_less)
  then have ek: "e + 24 \<le> k" using x k by (simp add: e_def)
  have fle: "floor_log2 x + 1 \<le> e + 24" using x by (simp add: e_def)
  have val: "round32 x = of_int (round_half_even (x / 2 powi e)) * 2 powi e"
    using x by (simp add: round32_def e_def Let_def)
  have "x < 2 powi (floor_log2 x + 1)" using x by (rule floor_log2_bounds(2))
  also have "\<dots> \<le> 2 powi (e + 24)" using fle by (intro power_int_increasing) simp_all
  also have "\<dots> = 2 ^ 24 * 2 powi e" by (simp add: power_int_add)
  finally have "x / 2 powi e \<le> of_int (2 ^ 24)" by (simp add: pos_divide_le_eq)
  then have "round_half_even (x / 2 powi e) \<le> 2 ^ 24" by (rule round_half_even_le)
  then have "(of_int (round_half_even (x / 2 powi e)) :: rat) \<le> of_int (2 ^ 24)"
    by (simp only: of_int_le_iff)
  then have "round32 x \<le> 2 ^ 24 * 2 powi e"
    unfolding val by (intro mult_right_mono) simp_all
  also have "\<dots> = 2 powi (e + 24)" by (simp add: power_int_add)
  also have "\<dots> \<le> 2 powi k" using ek by (intro power_int_increasing) simp_all
  finally show ?thesis .
qed

lemma round32_nonneg: "0 \<le> x \<Longrightarrow> 0 \<le> round32 x"
proof -
  assume x: "0 \<le> x"
  define e where "e = max (floor_log2 x - 23) (- 149)"
  have "0 \<le> x / 2 powi e" using x by simp
  then have "0 \<le> round_half_even (x / 2 powi e)"
    using round_half_even_ge [of 0 "x / 2 powi e"] by simp
  then show ?thesis using x by (simp add: round32_def e_def [symmetric] Let_def sgn_if)
qed

lemma round32_of_int:
  assumes "0 \<le> n" "n < 2 ^ 24"
  shows "round32 (of_int n) = of_int n"
proof (cases "n = 0")
  case True
  then show ?thesis by (simp add: round32_def)
next
  case False
  with assms have n: "0 < n" by simp
  then have x: "(0::rat) < of_int n" by simp
  define e where "e = max (floor_log2 \<bar>of_int n\<bar> - 23) (- 149)"
  have "(of_int n :: rat) < of_int (2 ^ 24)" using assms(2) by (simp only: of_int_less_iff)
  then have "(of_int n :: rat) < 2 powi 24" by simp
  then have "floor_log2 (of_int n) < 24" using x by (intro floor_log2_less)
  then have e0: "e \<le> 0" using x by (simp add: e_def)
  have "(of_int n :: rat) / 2 powi e = of_int n * 2 powi (- e)"
    by (simp add: power_int_minus field_simps)
  also have "\<dots> = of_int n * 2 ^ nat (- e)" using e0 by (simp add: power_int_def)
  also have "\<dots> = of_int (n * 2 ^ nat (- e))" by simp
  finally have q: "(of_int n :: rat) / 2 powi e = of_int (n * 2 ^ nat (- e))" .
  have rh: "round_half_even (of_int n / 2 powi e) = n * 2 ^ nat (- e)"
    by (simp only: q round_half_even_of_int)
  have "round32 (of_int n) = of_int (round_half_even (of_int n / 2 powi e)) * 2 powi e"
    using x by (simp add: round32_def e_def Let_def)
  then have "round32 (of_int n) = of_int (n * 2 ^ nat (- e)) * 2 powi e"
    by (simp only: rh)
  also have "\<dots> = of_int n * (2 powi (- e) * 2 powi e)" using e0 by (simp add: power_int_def)
  also have "\<dots> = of_int n" by (simp add: power_int_minus)
  finally show ?thesis .
qed

lemma round32_one: "round32 1 = 1"
  using round32_of_int [of 1] by simp

lemma round32_ge_one: "1 \<le> x \<Longrightarrow> 1 \<le> round32 x"
  using round32_ge [of "2 ^ 23" "- 23" x] by (simp add: power_int_minus)

lemma round32_ge_hundred: "100 \<le> x \<Longrightarrow> 100 \<le> round32 x"
  using round32_ge [of 13107200 "- 17" x] by (simp add: power_int_minus)

lemma round32_le_one: "0 \<le> x \<Longrightarrow> x \<le> 1 \<Longrightarrow> round32 x \<le> 1"
  using round32_le [of x 0] by (cases "x = 0") (simp_all add: round32_def)

lemma round_half_even_error: "\<bar>of_int (round_half_even x) - x\<bar> \<le> 1 / 2"
proof -
  define r where "r = x - of_int \<lfloor>x\<rfloor>"
  have r: "0 \<le> r" "r < 1" unfolding r_def by linarith+
  have x: "x = of_int \<lfloor>x\<rfloor> + r" by (simp add: r_def)
  have "round_half_even x = (if r < 1 / 2 then \<lfloor>x\<rfloor> else if 1 / 2 < r then \<lfloor>x\<rfloor> + 1
      else if even \<lfloor>x\<rfloor> then \<lfloor>x\<rfloor> else \<lfloor>x\<rfloor> + 1)"
    by (simp add: round_half_even_def Let_def r_def)
  then have "of_int (round_half_even x) - x = - r \<and> r \<le> 1 / 2
      \<or> of_int (round_half_even x) - x = 1 - r \<and> 1 / 2 \<le> r"
    using x by (auto split: if_splits)
  with r show ?thesis by (auto simp: abs_if)
qed

lemma round32_error_below_one:
  assumes "0 \<le> x" "x \<le> 1"
  shows "\<bar>round32 x - x\<bar> \<le> 1 / 2 ^ 25"
proof (cases "x = 0 \<or> x = 1")
  case True
  then show ?thesis
  proof
    assume "x = 0"
    then show ?thesis by (simp add: round32_def)
  next
    assume "x = 1"
    then show ?thesis by (simp add: round32_one)
  qed
next
  case False
  with assms have x: "0 < x" and lt: "x < 2 powi 0" by simp_all
  define e where "e = max (floor_log2 \<bar>x\<bar> - 23) (- 149)"
  have "floor_log2 x < 0" using x lt by (rule floor_log2_less)
  then have e: "e \<le> - 24" using x by (simp add: e_def)
  have val: "round32 x = of_int (round_half_even (x / 2 powi e)) * 2 powi e"
    using x by (simp add: round32_def e_def Let_def)
  have "round32 x - x = (of_int (round_half_even (x / 2 powi e)) - x / 2 powi e) * 2 powi e"
    by (simp add: val algebra_simps)
  then have "\<bar>round32 x - x\<bar> = \<bar>of_int (round_half_even (x / 2 powi e)) - x / 2 powi e\<bar> * 2 powi e"
    by (simp add: abs_mult)
  also have "\<dots> \<le> 1 / 2 * 2 powi e"
    by (intro mult_right_mono round_half_even_error) simp
  also have "\<dots> \<le> 1 / 2 * 2 powi (- 24)"
    using e by (intro mult_left_mono power_int_increasing) simp_all
  also have "\<dots> = 1 / 2 ^ 25" by (simp add: power_int_minus)
  finally show ?thesis .
qed


lemma int32_of_nat_small: "n < 2 ^ 31 \<Longrightarrow> int32_of_nat n = int n"
  by (simp add: int32_of_nat_def)

lemma round32_reciprocal_hundred: "round32 (1 / 100) = 5368709 / 536870912"
  by code_simp

lemma round32_near_one:
  assumes "1 - 1 / 2 ^ 25 \<le> x"
  shows "1 \<le> round32 x"
proof (cases "1 \<le> x")
  case True
  then show ?thesis by (rule round32_ge_one)
next
  case False
  then have lt: "x < 1" by simp
  from assms have half: "1 / 2 \<le> x" by simp
  then have x: "0 < x" by simp
  have "- 1 \<le> floor_log2 x" using half by (intro floor_log2_ge) (simp add: power_int_minus)
  moreover have "floor_log2 x < 0" using x lt by (intro floor_log2_less) simp_all
  ultimately have fl: "floor_log2 x = - 1" by simp
  have val: "round32 x = of_int (round_half_even (x / 2 powi (- 24))) * 2 powi (- 24)"
    using x fl by (simp add: round32_def Let_def)
  define y where "y = x * 2 ^ 24"
  have y: "x / 2 powi (- 24) = y" by (simp add: y_def power_int_minus)
  have lo: "2 ^ 24 - 1 / 2 \<le> y" using assms by (simp add: y_def)
  have hi: "y < 2 ^ 24" using lt by (simp add: y_def)
  have fy: "\<lfloor>y\<rfloor> = 2 ^ 24 - 1" using lo hi by (intro floor_unique) simp_all
  have rhe: "round_half_even y = 2 ^ 24"
    using lo by (simp add: round_half_even_def fy Let_def)
  have "round32 x = of_int (round_half_even y) * 2 powi (- 24)"
    by (simp only: val y)
  then show ?thesis by (simp add: rhe power_int_minus)
qed

lemma mock_score_hundred_up:
  assumes "100 \<le> n" "n < 2 ^ 31"
  shows "min (round32 (round32 (of_int (int32_of_nat n)) * round32 (1 / 100))) 1 = 1"
proof -
  have "(100::rat) \<le> of_nat n" using assms(1) by simp
  then have "100 \<le> round32 (of_nat n)" by (rule round32_ge_hundred)
  then have "100 * (5368709 / 536870912) \<le> round32 (of_nat n) * (5368709 / 536870912)"
    by (intro mult_right_mono) simp_all
  then have "1 - 1 / 2 ^ 25 \<le> round32 (of_nat n) * (5368709 / 536870912)" by simp
  then have "1 \<le> round32 (round32 (of_nat n) * (5368709 / 536870912))" by (rule round32_near_one)
  then show ?thesis
    using assms(2) by (simp add: int32_of_nat_small round32_reciprocal_hundred)
qed

lemma mock_score_below_hundred:
  assumes "n < 100"
  shows "min (round32 (round32 (of_int (int32_of_nat n)) * round32 (1 / 100))) 1
       = round32 (of_nat n * round32 (1 / 100))"
proof -
  have i: "int32_of_nat n = int n" using assms by (intro int32_of_nat_small) simp
  have c: "round32 (of_nat n) = of_nat n"
    using assms round32_of_int [of "int n"] by simp
  have "of_nat n * (5368709 / 536870912 :: rat) \<le> 100 * (5368709 / 536870912)"
    using assms by (intro mult_right_mono) simp_all
  then have "of_nat n * (5368709 / 536870912 :: rat) \<le> 1" by simp
  then have "round32 (of_nat n * (5368709 / 536870912)) \<le> 1"
    by (intro round32_le_one) simp_all
  then show ?thesis by (simp add: i c round32_reciprocal_hundred)
qed

lemma mock_score:
  assumes "n < 2 ^ 31"
  shows "min (round32 (round32 (of_int (int32_of_nat n)) * round32 (1 / 100))) 1
       = (if 100 \<le> n then 1 else round32 (of_nat n * round32 (1 / 100)))"
  using assms mock_score_hundred_up [of n] mock_score_below_hundred [of n] by simp

lemma mock_score_error:
  "\<bar>(if 100 \<le> n then 1 else round32 (of_nat n * round32 (1 / 100))) - min (of_nat n / 100) 1\<bar>
     \<le> 1 / 2 ^ 24"
proof (cases "100 \<le> n")
  case True
  then have "min (of_nat n / 100) (1::rat) = 1" by simp
  with True show ?thesis by simp
next
  case False
  define x :: rat where "x = of_nat n * (5368709 / 536870912)"
  have n: "(of_nat n :: rat) \<le> 99" using False by simp
  have x0: "0 \<le> x" by (simp add: x_def)
  have "x \<le> 99 * (5368709 / 536870912)" unfolding x_def using n by (intro mult_right_mono) simp_all
  then have x1: "x \<le> 1" by simp
  have r: "\<bar>round32 x - x\<bar> \<le> 1 / 2 ^ 25" using x0 x1 by (rule round32_error_below_one)
  have "of_nat n / 100 - x = of_nat n * (3 / 13421772800)" by (simp add: x_def field_simps)
  also have "\<dots> \<le> 99 * (3 / 13421772800)" using n by (intro mult_right_mono) simp_all
  finally have d1: "of_nat n / 100 - x \<le> 297 / 13421772800" by simp
  have d0: "0 \<le> of_nat n / 100 - x"
  proof -
    have "of_nat n / 100 - x = of_nat n * (3 / 13421772800)" by (simp add: x_def field_simps)
    then show ?thesis by simp
  qed
  have m: "min (of_nat n / 100) (1::rat) = of_nat n / 100" using False by simp
  have "\<bar>round32 x - of_nat n / 100\<bar> \<le> \<bar>round32 x - x\<bar> + \<bar>of_nat n / 100 - x\<bar>" by simp
  also have "\<dots> \<le> 1 / 2 ^ 25 + 297 / 13421772800" using r d0 d1 by simp
  also have "\<dots> \<le> 1 / 2 ^ 24" by simp
  finally show ?thesis using False by (simp add: m x_def round32_reciprocal_hundred)
qed

lemma predict_scores:
  "map_of (predict batch) ''toxicity_score''
     = Some (Float32 (map (\<lambda>s. min (round32 (round32 (of_int (int32_of_nat (length s)))
                                        * round32 (1 / 100))) 1) batch))"
  by (simp add: predict_def strings_length_def cast_float32_def divide_float32_def
      minimum_def Let_def o_def)

lemma predict_scores_in_range:
  assumes "\<forall>s\<in>set batch. length s < 2 ^ 31"
  shows "map_of (predict batch) ''toxicity_score''
     = Some (Float32 (map (\<lambda>s. if 100 \<le> length s then 1
                                else round32 (of_nat (length s) * round32 (1 / 100))) batch))"
  unfolding predict_scores using assms by (simp add: mock_score)

lemma round32_two_hundredths: "round32 (2 / 100) = 5368709 / 268435456"
  by code_simp

lemma score_of_two_bytes: "round32 (2 * round32 (1 / 100)) = round32 (2 / 100)"
  by code_simp

lemma score_of_five_bytes: "round32 (5 * round32 (1 / 100)) = 3355443 / 67108864"
  by code_simp

lemma round32_five_hundredths: "round32 (5 / 100) = 13421773 / 268435456"
  by code_simp

lemma int32_of_nat_wraps: "int32_of_nat 2147483648 = - 2147483648"
  by (simp add: int32_of_nat_def)

lemma score_of_negative_length:
  "min (round32 (round32 (- 2147483648) * round32 (1 / 100))) 1 = - 21474836"
  by code_simp

lemma score_of_wrapped_length:
  "min (round32 (round32 (of_int (int32_of_nat 2147483648)) * round32 (1 / 100))) 1 = - 21474836"
  by (simp add: int32_of_nat_wraps score_of_negative_length)

section \<open>Facts about the two predictors\<close>

lemma sigmoid_bounds: "0 \<le> sigmoid y \<and> sigmoid y \<le> 1"
proof -
  have pos: "0 < 1 + exp (- y)" by (rule add_pos_pos) simp_all
  have lo: "0 \<le> 1 / (1 + exp (- y))" by (rule divide_nonneg_pos [OF zero_le_one pos])
  have "1 \<le> 1 + exp (- y)" by simp
  then have hi: "1 / (1 + exp (- y)) \<le> 1" by (simp only: divide_le_eq_1_pos [OF pos])
  from lo hi show ?thesis by (simp only: sigmoid_def)
qed

lemma serve_scores:
  "map_of (serve self batch) ''toxicity_score''
     = Some (Float32_2D (Dense sigmoid (dense2_kernel self) (dense2_bias self)
         (Dense relu (dense1_kernel self) (dense1_bias self)
           (reshape_column (map preprocess batch)))))"
  by (simp add: serve_def Let_def)

lemma Dense_sigmoid_bounds:
  "row \<in> set (Dense sigmoid w b inputs) \<Longrightarrow> x \<in> set row \<Longrightarrow> 0 \<le> x \<and> x \<le> 1"
  by (auto simp: Dense_def sigmoid_bounds)

lemma Dense_length: "length (Dense activation w b inputs) = length inputs"
  by (simp add: Dense_def)

lemma foldr_max_length:
  "ws \<noteq> [] \<Longrightarrow> list_all (\<lambda>r. length r = k) ws \<Longrightarrow> foldr (\<lambda>xs. max (length xs)) ws 0 = k"
proof (induction ws)
  case Nil
  then show ?case by simp
next
  case (Cons a ws)
  then show ?case by (cases "ws = []") simp_all
qed

lemma matmul_row_length:
  "w \<noteq> [] \<Longrightarrow> list_all (\<lambda>r. length r = k) w \<Longrightarrow> length (matmul_row x w) = k"
  by (simp add: matmul_row_def length_transpose foldr_max_length)

lemma built_score_rows:
  assumes "built self" "row \<in> set (Dense sigmoid (dense2_kernel self) (dense2_bias self) inputs)"
  shows "length row = 1"
proof -
  from assms(1) have w: "dense2_kernel self \<noteq> []"
    and k: "list_all (\<lambda>r. length r = 1) (dense2_kernel self)" and b: "length (dense2_bias self) = 1"
    by (auto simp: built_def)
  from assms(2) obtain x where "row = map sigmoid (map2 (+) (matmul_row x (dense2_kernel self)) (dense2_bias self))"
    by (auto simp: Dense_def)
  then show ?thesis using matmul_row_length [OF w k] b by simp
qed

lemma built_zero_model: "built zero_model"
  by (simp add: built_def zero_model_def)

lemma round32_two: "round32 2 = 2"
  using round32_of_int [of 2] by simp

lemma serve_zero_model_hi:
  "serve zero_model [''hi''] = [(''toxicity_score'', Float32_2D [[1 / 2]]), (''is_toxic'', Bool_2D [[False]])]"
  by (simp add: serve_def zero_model_def Dense_def matmul_row_def reshape_column_def preprocess_def
      sigmoid_def relu_def Let_def round32_two int32_of_nat_def)


lemma list_all2_map_same: "list_all2 (\<lambda>y x. y = f x) (map f xs) xs"
  by (induction xs) simp_all

lemma list_all2_map_map_same: "list_all2 (list_all2 (\<lambda>y x. y = f x)) (map (map f) rows) rows"
  by (induction rows) (simp_all add: list_all2_map_same)



lemma initialised_zero_model: "initialised zero_model"
  by (simp add: initialised_def built_def glorot_uniform_def zero_model_def)

section \<open>Facts about the file system steps\<close>

lemma and_then_None [simp]: "and_then (None, fs) f = f fs"
  by (simp add: and_then_def)

lemma and_then_Some [simp]: "and_then (Some e, fs) f = (Some e, fs)"
  by (simp add: and_then_def)

lemma and_then_ok:
  "and_then r f = (None, fs') \<longleftrightarrow> (\<exists>fs. r = (None, fs) \<and> f fs = (None, fs'))"
  by (cases r) (auto simp: and_then_def split: option.splits)

lemma print_line_ok:
  "print_line env line fs = (None, fs')
     \<longleftrightarrow> (stdout_unicode env \<or> list_all (\<lambda>c. (of_char c :: nat) < 128) line) \<and> fs' = fs"
  by (auto simp: print_line_def)

lemma print_line_ascii:
  "list_all (\<lambda>c. (of_char c :: nat) < 128) line \<Longrightarrow> print_line env line fs = (None, fs)"
  by (simp add: print_line_def)

lemma makedirs_from_frame:
  "makedirs_from fs made cs = (r, fs') \<Longrightarrow>
     fs' q = fs q \<or> (fs q = None \<and> fs' q = Some Dir \<and> prefix q (made @ cs))"
proof (induction cs arbitrary: fs made)
  case Nil
  then show ?case by simp
next
  case (Cons c cs)
  show ?case
  proof (cases "fs (made @ [c])")
    case None
    with Cons.prems have "makedirs_from (fs(made @ [c] \<mapsto> Dir)) (made @ [c]) cs = (r, fs')" by simp
    from Cons.IH [OF this] None show ?thesis
      by (auto split: if_splits)
  next
    case (Some n)
    show ?thesis
    proof (cases n)
      case Dir
      with Some Cons.prems have "makedirs_from fs (made @ [c]) cs = (r, fs')" by simp
      from Cons.IH [OF this] show ?thesis by auto
    next
      case (File x)
      with Some Cons.prems show ?thesis by simp
    qed
  qed
qed

lemma makedirs_from_error:
  "makedirs_from fs made cs = (Some e, fs') \<Longrightarrow> isinstance_OSError e"
proof (induction cs arbitrary: fs made)
  case Nil
  then show ?case by simp
next
  case (Cons c cs)
  then show ?case
    by (cases "fs (made @ [c])") (auto split: node.splits if_splits)
qed

lemma os_makedirs_below_frame:
  "os_makedirs_below fs start cs = (r, fs') \<Longrightarrow>
     fs' q = fs q \<or> (fs q = None \<and> fs' q = Some Dir \<and> prefix q (start @ cs))"
  using makedirs_from_frame [of fs start cs r fs' q]
  by (auto simp: os_makedirs_below_def split: if_splits option.splits node.splits)

lemma os_makedirs_below_error:
  "os_makedirs_below fs start cs = (Some e, fs') \<Longrightarrow> isinstance_OSError e"
  using makedirs_from_error [of fs start cs e fs']
  by (auto simp: os_makedirs_below_def split: if_splits option.splits node.splits)

lemma fold_write_other:
  "q \<notin> set (map (\<lambda>(rel, n). d @ rel) ws) \<Longrightarrow>
     fold (\<lambda>(rel, n) f. f(d @ rel \<mapsto> n)) ws fs q = fs q"
  by (induction ws arbitrary: fs) (auto split: prod.splits)

lemma saved_model_save_other:
  "saved_model_save env fs d = (r, fs') \<Longrightarrow> q \<notin> set (written_paths env d) \<Longrightarrow> fs' q = fs q"
  by (auto simp: saved_model_save_def written_paths_def fold_write_other)


lemma fold_create_frame:
  "fold (\<lambda>(p, n) f. if f p = None then f(p \<mapsto> n) else f) ws fs q = fs q
     \<or> (fs q = None \<and> q \<in> set (map fst ws))"
proof (induction ws arbitrary: fs)
  case Nil
  then show ?case by simp
next
  case (Cons w ws)
  obtain p n where w: "w = (p, n)" by (cases w)
  show ?case
    using Cons.IH [of "if fs p = None then fs(p \<mapsto> n) else fs"]
    by (auto simp: w split: if_splits)
qed

lemma hub_load_frame:
  "hub_load env url fs = (r, fs') \<Longrightarrow>
     fs' q = fs q \<or> (fs q = None \<and> q \<in> set (map fst (hub_cache_nodes env)))"
  using fold_create_frame [of "hub_cache_nodes env" fs q] by (auto simp: hub_load_def)

lemma hub_load_error:
  "hub env url \<noteq> Module_found \<Longrightarrow> fst (hub_load env url fs) = Some URLError"
  by (cases "hub env url") (simp_all add: hub_load_def)

lemma tree_shaped_below_missing:
  assumes "tree_shaped fs" "fs p = None" "p \<noteq> []"
  shows "fs (p @ zs) = None"
proof (induction zs rule: rev_induct)
  case Nil
  then show ?case using assms(2) by simp
next
  case (snoc c ys)
  show ?case
  proof (rule ccontr)
    assume "fs (p @ ys @ [c]) \<noteq> None"
    then have "fs ((p @ ys) @ [c]) \<noteq> None" by simp
    with assms(1) have "p @ ys = [] \<or> fs (p @ ys) = Some Dir"
      unfolding tree_shaped_def by blast
    with snoc assms(3) show False by simp
  qed
qed

lemma cleared_below:
  assumes t: "tree_shaped fs0" and d: "d \<noteq> []"
    and r: "(if os_path_exists fs0 d then shutil_rmtree fs0 d else (None, fs0)) = (None, fs1)"
    and q: "prefix d q"
  shows "fs1 q = None"
proof (cases "os_path_exists fs0 d")
  case True
  with r have "shutil_rmtree fs0 d = (None, fs1)" by simp
  then have "fs1 = (\<lambda>q. if prefix d q then None else fs0 q)"
    by (auto simp: shutil_rmtree_def split: option.splits node.splits)
  with q show ?thesis by simp
next
  case False
  with r have eq: "fs1 = fs0" and none: "fs0 d = None" by (simp_all add: os_path_exists_def)
  from q obtain zs where "q = d @ zs" by (auto simp: prefix_def)
  with tree_shaped_below_missing [OF t none d] eq show ?thesis by simp
qed

lemma create_serving_model_steps:
  assumes "create_serving_model env fs0 = (None, fs')"
  shows "\<exists>fs1 fs2.
      (if os_path_exists fs0 model_dir then shutil_rmtree fs0 model_dir else (None, fs0)) = (None, fs1)
    \<and> os_makedirs fs1 model_dir = (None, fs2)
    \<and> saved_model_save env fs2 model_dir = (None, fs')"
  using assms unfolding create_serving_model_def and_then_ok print_line_ok saved_model_load_def
  by auto

lemma create_serving_model_only_new:
  assumes t: "tree_shaped fs0"
    and run: "create_serving_model env fs0 = (None, fs')"
    and below: "strict_prefix model_dir q"
    and there: "fs' q \<noteq> None"
  shows "q \<in> set (written_paths env model_dir)"
proof (rule ccontr)
  assume nw: "q \<notin> set (written_paths env model_dir)"
  from create_serving_model_steps [OF run] obtain fs1 fs2 where
    1: "(if os_path_exists fs0 model_dir then shutil_rmtree fs0 model_dir else (None, fs0)) = (None, fs1)" and
    2: "os_makedirs fs1 model_dir = (None, fs2)" and
    3: "saved_model_save env fs2 model_dir = (None, fs')"
    by blast
  have d: "model_dir \<noteq> []" by (simp add: model_dir_def)
  from below have pre: "prefix model_dir q" and np: "\<not> prefix q model_dir"
    by (auto simp: strict_prefix_def)
  have "fs1 q = None" using t d 1 pre by (rule cleared_below)
  moreover have "fs2 q = fs1 q"
    using makedirs_from_frame [of fs1 "[]" model_dir None fs2 q] 2 np
    by (auto simp: os_makedirs_def)
  moreover have "fs' q = fs2 q" using 3 nw by (rule saved_model_save_other)
  ultimately show False using there by simp
qed

lemma makedirs_keeps:
  "os_makedirs fs p = (r, fs') \<Longrightarrow> fs q \<noteq> None \<Longrightarrow> fs' q = fs q"
  using makedirs_from_frame [of fs "[]" p r fs' q] by (auto simp: os_makedirs_def)

lemma create_toxicity_model_keeps:
  assumes run: "create_toxicity_model env script fs0 = (None, fs')"
    and there: "fs0 q \<noteq> None"
    and nw: "q \<notin> set (written_paths env (model_path script))"
  shows "fs' q = fs0 q"
proof -
  from run obtain fs1 where
    1: "os_makedirs fs0 (model_path script) = (None, fs1)" and
    2: "saved_model_save env fs1 (model_path script) = (None, fs')"
    unfolding create_toxicity_model_def and_then_ok print_line_ok by auto
  have "fs1 q = fs0 q" using 1 there by (rule makedirs_keeps)
  moreover have "fs' q = fs1 q" using 2 nw by (rule saved_model_save_other)
  ultimately show ?thesis by simp
qed

lemma download_pretrained_model_keeps:
  assumes run: "download_pretrained_model env pf fs0 = (None, fs')"
    and there: "fs0 q \<noteq> None"
    and nw: "q \<notin> set (written_paths env (hub_model_dir pf))"
  shows "fs' q = fs0 q"
proof -
  from run obtain fs1 fs2 where
    1: "os_makedirs_below fs0 (start_of pf) (below_start pf) = (None, fs1)" and
    2: "hub_load env model_url fs1 = (None, fs2)" and
    3: "saved_model_save env fs2 (hub_model_dir pf) = (None, fs')"
    unfolding download_pretrained_model_def and_then_ok print_line_ok by auto
  have "fs1 q = fs0 q" using os_makedirs_below_frame [OF 1, of q] there by auto
  moreover have "fs2 q = fs1 q" using hub_load_frame [OF 2, of q] there calculation by auto
  moreover have "fs' q = fs2 q" using 3 nw by (rule saved_model_save_other)
  ultimately show ?thesis by simp
qed

lemma tree_shaped_stale_in: "tree_shaped (stale_in d)"
  unfolding tree_shaped_def stale_in_def
  by (auto dest: append_prefixD)

lemma download_fails:
  assumes "hub env model_url \<noteq> Module_found"
  shows "\<exists>e. fst (download_pretrained_model env pf fs0) = Some e \<and> isinstance_OSError e"
proof -
  obtain r fs1 where m: "os_makedirs_below fs0 (start_of pf) (below_start pf) = (r, fs1)"
    by (cases "os_makedirs_below fs0 (start_of pf) (below_start pf)")
  show ?thesis
  proof (cases r)
    case None
    then have "fst (download_pretrained_model env pf fs0) = fst (and_then (hub_load env model_url fs1)
        (\<lambda>fs. and_then (print_line env ''Model downloaded from TF Hub.'' fs)
        (\<lambda>fs. and_then (saved_model_save env fs (hub_model_dir pf))
        (\<lambda>fs. and_then (print_line env (check_mark @ '' Model saved at '') fs)
        (\<lambda>fs. print_line env ''Saved model contents:'' fs)))))"
      using m by (simp add: download_pretrained_model_def print_line_ascii)
    also have "\<dots> = Some URLError"
      using hub_load_error [OF assms, of fs1]
      by (cases "hub_load env model_url fs1") simp
    finally show ?thesis by simp
  next
    case (Some e)
    then have "fst (download_pretrained_model env pf fs0) = Some e"
      using m by (simp add: download_pretrained_model_def print_line_ascii)
    moreover have "isinstance_OSError e" using m Some os_makedirs_below_error by blast
    ultimately show ?thesis by blast
  qed
qed

lemma download_fails_frame:
  assumes "hub env model_url \<noteq> Module_found"
  shows "snd (download_pretrained_model env pf fs0) q = fs0 q
     \<or> (fs0 q = None \<and> snd (download_pretrained_model env pf fs0) q = Some Dir
         \<and> prefix q (hub_model_dir pf))
     \<or> (fs0 q = None \<and> q \<in> set (map fst (hub_cache_nodes env)))"
proof -
  obtain r fs1 where m: "os_makedirs_below fs0 (start_of pf) (below_start pf) = (r, fs1)"
    by (cases "os_makedirs_below fs0 (start_of pf) (below_start pf)")
  note f1 = os_makedirs_below_frame [OF m, of q]
  show ?thesis
  proof (cases r)
    case None
    obtain r2 fs2 where h: "hub_load env model_url fs1 = (r2, fs2)"
      by (cases "hub_load env model_url fs1")
    have "r2 = Some URLError" using hub_load_error [OF assms, of fs1] h by simp
    then have "snd (download_pretrained_model env pf fs0) = fs2"
      using m None h by (simp add: download_pretrained_model_def print_line_ascii)
    then show ?thesis
      using f1 hub_load_frame [OF h, of q] by (auto simp: hub_model_dir_def)
  next
    case (Some e)
    then have "snd (download_pretrained_model env pf fs0) = fs1"
      using m by (simp add: download_pretrained_model_def print_line_ascii)
    then show ?thesis using f1 by (auto simp: hub_model_dir_def)
  qed
qed

section \<open>The claims\<close>

text \<open>
  C1, as stated, fails. The graph does not divide: it multiplies the length by the
  float32 reciprocal of 100 and rounds the product, so the score is rounded twice. For
  a string of 5 bytes the score is \<open>3355443 / 67108864\<close>, which is neither \<open>5 / 100\<close> nor
  the float32 nearest to it (that is \<open>13421773 / 268435456\<close>, one unit in the last place
  higher; \<open>round32_five_hundredths\<close>).
\<close>

theorem C1_counterexample:
  "map_of (predict [''hello'']) ''toxicity_score'' = Some (Float32 [3355443 / 67108864])
   \<and> (3355443 / 67108864 :: rat) \<noteq> min (5 / 100) 1
   \<and> (3355443 / 67108864 :: rat) \<noteq> round32 (min (5 / 100) 1)"
proof -
  have "map_of (predict [''hello'']) ''toxicity_score''
      = Some (Float32 [round32 (5 * round32 (1 / 100))])"
    using predict_scores_in_range [of "[''hello'']"] by simp
  then have "map_of (predict [''hello'']) ''toxicity_score'' = Some (Float32 [3355443 / 67108864])"
    by (simp only: score_of_five_bytes)
  moreover have "(3355443 / 67108864 :: rat) \<noteq> min (5 / 100) 1" by simp
  moreover have "(3355443 / 67108864 :: rat) \<noteq> round32 (min (5 / 100) 1)"
    using round32_five_hundredths by simp
  ultimately show ?thesis by blast
qed

text \<open>
  C1, amended. For every batch, of any size including zero, of strings shorter than
  \<open>2 ^ 31\<close> bytes, the \<open>toxicity_score\<close> of the mock-length predictor is, element by
  element, 1 where the byte length is at least 100, and otherwise the float32 product
  of the length and the float32 reciprocal of 100. It differs from
  \<open>min (length / 100) 1\<close> by at most \<open>1 / 2 ^ 24\<close>. For the batch of \<^verbatim>\<open>"hi"\<close> and a string
  of at least 100 bytes the scores are the float32 written \<^verbatim>\<open>0.02\<close> (which is
  \<open>5368709 / 268435456\<close>, see \<open>round32_two_hundredths\<close>) and 1.
\<close>

theorem C1_float32_scores:
  "((\<forall>str\<in>set batch. length str < 2 ^ 31) \<longrightarrow>
      map_of (predict batch) ''toxicity_score''
        = Some (Float32 (map (\<lambda>str. if 100 \<le> length str then 1
                                   else round32 (of_nat (length str) * round32 (1 / 100))) batch))
      \<and> (\<forall>str\<in>set batch.
            \<bar>(if 100 \<le> length str then 1 else round32 (of_nat (length str) * round32 (1 / 100)))
              - min (of_nat (length str) / 100) 1\<bar> \<le> 1 / 2 ^ 24))
   \<and> (100 \<le> length s \<and> length s < 2 ^ 31 \<longrightarrow>
        map_of (predict [''hi'', s]) ''toxicity_score'' = Some (Float32 [round32 (2 / 100), 1]))"
proof (intro conjI impI ballI)
  assume "\<forall>str\<in>set batch. length str < 2 ^ 31"
  then show "map_of (predict batch) ''toxicity_score''
        = Some (Float32 (map (\<lambda>str. if 100 \<le> length str then 1
                                   else round32 (of_nat (length str) * round32 (1 / 100))) batch))"
    by (rule predict_scores_in_range)
next
  fix str :: string
  show "\<bar>(if 100 \<le> length str then 1 else round32 (of_nat (length str) * round32 (1 / 100)))
              - min (of_nat (length str) / 100) 1\<bar> \<le> 1 / 2 ^ 24"
    by (rule mock_score_error)
next
  assume a: "100 \<le> length s \<and> length s < 2 ^ 31"
  then have "\<forall>str\<in>set [''hi'', s]. length str < 2 ^ 31" by simp
  from predict_scores_in_range [OF this] a
  show "map_of (predict [''hi'', s]) ''toxicity_score'' = Some (Float32 [round32 (2 / 100), 1])"
    by (simp add: score_of_two_bytes)
qed

theorem C1_witness:
  "length ''hello'' < 2 ^ 31
   \<and> map_of (predict [''hello'']) ''toxicity_score'' = Some (Float32 [3355443 / 67108864])
   \<and> \<bar>3355443 / 67108864 - min (5 / 100) (1::rat)\<bar> \<le> 1 / 2 ^ 24
   \<and> 100 \<le> length (replicate 100 CHR ''a'') \<and> length (replicate 100 CHR ''a'') < 2 ^ 31
   \<and> map_of (predict [''hi'', replicate 100 CHR ''a'']) ''toxicity_score''
       = Some (Float32 [round32 (2 / 100), 1])"
proof -
  have h: "\<forall>str\<in>set [''hello'']. length str < 2 ^ 31" by simp
  have l: "100 \<le> length (replicate 100 CHR ''a'') \<and> length (replicate 100 CHR ''a'') < 2 ^ 31"
    by simp
  note inst = C1_float32_scores [of "[''hello'']" "replicate 100 CHR ''a''"]
  from inst h have 1: "map_of (predict [''hello'']) ''toxicity_score''
      = Some (Float32 (map (\<lambda>str. if 100 \<le> length str then 1
                                 else round32 (of_nat (length str) * round32 (1 / 100))) [''hello'']))"
    by blast
  from inst h have 2: "\<forall>str\<in>set [''hello''].
      \<bar>(if 100 \<le> length str then 1 else round32 (of_nat (length str) * round32 (1 / 100)))
        - min (of_nat (length str) / 100) 1\<bar> \<le> 1 / 2 ^ 24"
    by blast
  from inst l have 3: "map_of (predict [''hi'', replicate 100 CHR ''a'']) ''toxicity_score''
      = Some (Float32 [round32 (2 / 100), 1])"
    by blast
  from 1 have a: "map_of (predict [''hello'']) ''toxicity_score'' = Some (Float32 [3355443 / 67108864])"
    by (simp add: score_of_five_bytes)
  from 2 have b: "\<bar>3355443 / 67108864 - min (5 / 100) (1::rat)\<bar> \<le> 1 / 2 ^ 24"
    by (simp add: score_of_five_bytes)
  from a b l 3 show ?thesis by simp
qed

text \<open>
  C2, as stated, fails. After a completed export the destination holds only what the
  run wrote in create\_tf\_serving\_model.py alone, which removes the directory first.
  The other two scripts only make sure the directory exists, so a file such as
  \<^verbatim>\<open>stale.txt\<close> that the export does not overwrite is still there afterwards.
\<close>

theorem C2_counterexample:
  "fst (create_toxicity_model env_ok script_file (stale_in (model_path script_file))) = None
   \<and> strict_prefix (model_path script_file) (model_path script_file @ [''stale.txt''])
   \<and> snd (create_toxicity_model env_ok script_file (stale_in (model_path script_file)))
         (model_path script_file @ [''stale.txt'']) = Some (File ''old'')
   \<and> model_path script_file @ [''stale.txt''] \<notin> set (written_paths env_ok (model_path script_file))
   \<and> fst (download_pretrained_model env_ok (Posix home) (stale_in (hub_model_dir (Posix home)))) = None
   \<and> strict_prefix (hub_model_dir (Posix home)) (hub_model_dir (Posix home) @ [''stale.txt''])
   \<and> snd (download_pretrained_model env_ok (Posix home) (stale_in (hub_model_dir (Posix home))))
         (hub_model_dir (Posix home) @ [''stale.txt'']) = Some (File ''old'')
   \<and> hub_model_dir (Posix home) @ [''stale.txt''] \<notin> set (written_paths env_ok (hub_model_dir (Posix home)))"
  by (simp add: run_defs)

text \<open>
  C2, amended. In create\_tf\_serving\_model.py, started on a well-formed file system,
  everything that exists strictly below the destination after a completed export was
  written by that export. In the other two scripts a completed export leaves every
  node that existed before and that it does not itself write as it was.
\<close>

theorem C2_export_contents:
  "(tree_shaped fs0 \<and> create_serving_model env fs0 = (None, fs1)
      \<and> strict_prefix model_dir q \<and> fs1 q \<noteq> None
      \<longrightarrow> q \<in> set (written_paths env model_dir))
   \<and> (create_toxicity_model env script fs0 = (None, fs2)
      \<and> fs0 q \<noteq> None \<and> q \<notin> set (written_paths env (model_path script))
      \<longrightarrow> fs2 q = fs0 q)
   \<and> (download_pretrained_model env pf fs0 = (None, fs3)
      \<and> fs0 q \<noteq> None \<and> q \<notin> set (written_paths env (hub_model_dir pf))
      \<longrightarrow> fs3 q = fs0 q)"
  using create_serving_model_only_new create_toxicity_model_keeps download_pretrained_model_keeps
  by blast

theorem C2_witness:
  "tree_shaped (stale_in model_dir)
   \<and> create_serving_model env_ok (stale_in model_dir)
       = (None, snd (create_serving_model env_ok (stale_in model_dir)))
   \<and> strict_prefix model_dir (model_dir @ [''saved_model.pb''])
   \<and> snd (create_serving_model env_ok (stale_in model_dir)) (model_dir @ [''saved_model.pb'']) \<noteq> None
   \<and> model_dir @ [''saved_model.pb''] \<in> set (written_paths env_ok model_dir)
   \<and> snd (create_serving_model env_ok (stale_in model_dir)) (model_dir @ [''stale.txt'']) = None
   \<and> create_toxicity_model env_ok script_file (stale_in (model_path script_file))
       = (None, snd (create_toxicity_model env_ok script_file (stale_in (model_path script_file))))
   \<and> stale_in (model_path script_file) (model_path script_file @ [''stale.txt'']) \<noteq> None
   \<and> model_path script_file @ [''stale.txt''] \<notin> set (written_paths env_ok (model_path script_file))
   \<and> snd (create_toxicity_model env_ok script_file (stale_in (model_path script_file)))
         (model_path script_file @ [''stale.txt''])
       = stale_in (model_path script_file) (model_path script_file @ [''stale.txt''])
   \<and> download_pretrained_model env_ok (Posix home) (stale_in (hub_model_dir (Posix home)))
       = (None, snd (download_pretrained_model env_ok (Posix home) (stale_in (hub_model_dir (Posix home)))))
   \<and> stale_in (hub_model_dir (Posix home)) (hub_model_dir (Posix home) @ [''stale.txt'']) \<noteq> None
   \<and> hub_model_dir (Posix home) @ [''stale.txt''] \<notin> set (written_paths env_ok (hub_model_dir (Posix home)))
   \<and> snd (download_pretrained_model env_ok (Posix home) (stale_in (hub_model_dir (Posix home))))
         (hub_model_dir (Posix home) @ [''stale.txt''])
       = stale_in (hub_model_dir (Posix home)) (hub_model_dir (Posix home) @ [''stale.txt''])"
proof -
  let ?fs1 = "snd (create_serving_model env_ok (stale_in model_dir))"
  let ?fs2 = "snd (create_toxicity_model env_ok script_file (stale_in (model_path script_file)))"
  let ?fs3 = "snd (download_pretrained_model env_ok (Posix home) (stale_in (hub_model_dir (Posix home))))"
  let ?stale2 = "model_path script_file @ [''stale.txt'']"
  let ?stale3 = "hub_model_dir (Posix home) @ [''stale.txt'']"
  have t: "tree_shaped (stale_in model_dir)" by (rule tree_shaped_stale_in)
  have r1: "create_serving_model env_ok (stale_in model_dir) = (None, ?fs1)"
    by (simp add: run_defs)
  have s1: "strict_prefix model_dir (model_dir @ [''saved_model.pb''])"
    by (simp add: strict_prefix_def)
  have e1: "?fs1 (model_dir @ [''saved_model.pb'']) \<noteq> None" by (simp add: run_defs)
  have gone: "?fs1 (model_dir @ [''stale.txt'']) = None" by (simp add: run_defs)
  have r2: "create_toxicity_model env_ok script_file (stale_in (model_path script_file)) = (None, ?fs2)"
    by (simp add: run_defs)
  have e2: "stale_in (model_path script_file) ?stale2 \<noteq> None" by (simp add: run_defs)
  have n2: "?stale2 \<notin> set (written_paths env_ok (model_path script_file))"
    by (simp add: run_defs)
  have r3: "download_pretrained_model env_ok (Posix home) (stale_in (hub_model_dir (Posix home))) = (None, ?fs3)"
    by (simp add: run_defs)
  have e3: "stale_in (hub_model_dir (Posix home)) ?stale3 \<noteq> None" by (simp add: run_defs)
  have n3: "?stale3 \<notin> set (written_paths env_ok (hub_model_dir (Posix home)))" by (simp add: run_defs)
  from C2_export_contents [where ?fs0.0 = "stale_in model_dir" and env = env_ok and ?fs1.0 = ?fs1
      and q = "model_dir @ [''saved_model.pb'']"] t r1 s1 e1
  have w1: "model_dir @ [''saved_model.pb''] \<in> set (written_paths env_ok model_dir)" by blast
  from C2_export_contents [where ?fs0.0 = "stale_in (model_path script_file)" and env = env_ok
      and script = script_file and ?fs2.0 = ?fs2 and q = ?stale2] r2 e2 n2
  have k2: "?fs2 ?stale2 = stale_in (model_path script_file) ?stale2"
    by blast
  from C2_export_contents [where ?fs0.0 = "stale_in (hub_model_dir (Posix home))" and env = env_ok
      and pf = "Posix home" and ?fs3.0 = ?fs3 and q = ?stale3] r3 e3 n3
  have k3: "?fs3 ?stale3 = stale_in (hub_model_dir (Posix home)) ?stale3"
    by blast
  from t r1 s1 e1 w1 gone r2 e2 n2 k2 r3 e3 n3 k3 show ?thesis by blast
qed

text \<open>
  C3, as stated, fails: the script calls \<^verbatim>\<open>os.makedirs\<close> before it fetches, so a file
  system write does precede the fetch. Started in a working directory where the
  destination does not exist yet, the run whose fetch fails has created the
  destination directory, and it had done so before the fetch began.
\<close>

theorem C3_counterexample:
  "hub env_unreachable model_url = Unreachable
   \<and> dirs_to home (hub_model_dir (Posix home)) = None
   \<and> fst (os_makedirs_below (dirs_to home) (start_of (Posix home)) (below_start (Posix home))) = None
   \<and> snd (os_makedirs_below (dirs_to home) (start_of (Posix home)) (below_start (Posix home)))
        (hub_model_dir (Posix home)) = Some Dir
   \<and> fst (download_pretrained_model env_unreachable (Posix home) (dirs_to home)) = Some URLError
   \<and> snd (download_pretrained_model env_unreachable (Posix home) (dirs_to home))
        (hub_model_dir (Posix home)) = Some Dir"
  by (simp add: run_defs)

text \<open>
  C3, amended. If the hub cannot be reached or does not know the identifier, the run
  fails with an error of the \<^verbatim>\<open>IOError\<close> (\<^verbatim>\<open>OSError\<close>) family, and it saves nothing:
  every node that existed is as it was, and a node that is new is either a directory
  on the way to the destination, created by \<^verbatim>\<open>os.makedirs\<close> before the fetch, or a
  node of the hub client's own cache. No file is written to the destination path
  unless the cache has been put there.
\<close>

theorem C3_fetch_failure:
  "hub env model_url \<noteq> Module_found \<longrightarrow>
     (\<exists>e. fst (download_pretrained_model env pf fs0) = Some e \<and> isinstance_OSError e)
     \<and> (snd (download_pretrained_model env pf fs0) q = fs0 q
        \<or> (fs0 q = None \<and> snd (download_pretrained_model env pf fs0) q = Some Dir
            \<and> prefix q (hub_model_dir pf))
        \<or> (fs0 q = None \<and> q \<in> set (map fst (hub_cache_nodes env))))"
  using download_fails download_fails_frame by blast

theorem C3_witness:
  "hub env_unreachable model_url \<noteq> Module_found
   \<and> fst (download_pretrained_model env_unreachable (Posix home) (dirs_to home)) = Some URLError
   \<and> isinstance_OSError URLError
   \<and> dirs_to home (hub_model_dir (Posix home)) = None
   \<and> snd (download_pretrained_model env_unreachable (Posix home) (dirs_to home))
        (hub_model_dir (Posix home)) = Some Dir
   \<and> prefix (hub_model_dir (Posix home)) (hub_model_dir (Posix home))
   \<and> hub_model_dir (Posix home) \<notin> set (map fst (hub_cache_nodes env_unreachable))
   \<and> snd (download_pretrained_model env_unreachable (Posix home) (dirs_to home))
        (hub_model_dir (Posix home) @ [''saved_model.pb''])
      = dirs_to home (hub_model_dir (Posix home) @ [''saved_model.pb''])"
proof -
  let ?run = "download_pretrained_model env_unreachable (Posix home) (dirs_to home)"
  let ?d = "hub_model_dir (Posix home)"
  have h: "hub env_unreachable model_url \<noteq> Module_found" by (simp add: run_defs)
  have f: "fst ?run = Some URLError" by (simp add: run_defs)
  have n: "dirs_to home ?d = None" by (simp add: run_defs)
  have c: "?d \<notin> set (map fst (hub_cache_nodes env_unreachable))" by (simp add: run_defs)
  have c': "?d @ [''saved_model.pb''] \<notin> set (map fst (hub_cache_nodes env_unreachable))"
    by (simp add: run_defs)
  have np: "\<not> prefix (?d @ [''saved_model.pb'']) ?d" by simp
  have ch: "snd ?run ?d \<noteq> dirs_to home ?d" by (simp add: run_defs)
  from C3_fetch_failure [where env = env_unreachable and pf = "Posix home"
      and ?fs0.0 = "dirs_to home" and q = ?d] h
  obtain e where e: "fst ?run = Some e" "isinstance_OSError e"
    and d: "snd ?run ?d = dirs_to home ?d
        \<or> (dirs_to home ?d = None \<and> snd ?run ?d = Some Dir \<and> prefix ?d ?d)
        \<or> (dirs_to home ?d = None \<and> ?d \<in> set (map fst (hub_cache_nodes env_unreachable)))"
    by blast
  from e f have k: "isinstance_OSError URLError" by simp
  from d ch c have m: "snd ?run ?d = Some Dir \<and> prefix ?d ?d" by blast
  from C3_fetch_failure [where env = env_unreachable and pf = "Posix home"
      and ?fs0.0 = "dirs_to home" and q = "?d @ [''saved_model.pb'']"] h np c'
  have b: "snd ?run (?d @ [''saved_model.pb'']) = dirs_to home (?d @ [''saved_model.pb''])"
    by blast
  from h f k n m c b show ?thesis by blast
qed



text \<open>
  C5, as stated, fails for the mock-length script, whose output has a third field,
  \<open>predictions\<close>.
\<close>

theorem C5_counterexample:
  "''predictions'' \<in> set (map fst (predict [''hi'']))
   \<and> ''predictions'' \<notin> {''toxicity_score'', ''text_length''}"
  by (simp add: predict_def Let_def)

text \<open>
  C5, amended. For every batch the output of the mock-length serving function has
  exactly the fields \<open>toxicity_score\<close>, \<open>text_length\<close> and \<open>predictions\<close>, and the
  output of the random-weights serving function exactly \<open>toxicity_score\<close> and
  \<open>is_toxic\<close>, whatever its weights.
\<close>

theorem C5_output_fields:
  "map fst (predict batch) = [''toxicity_score'', ''text_length'', ''predictions'']
   \<and> map fst (serve self batch) = [''toxicity_score'', ''is_toxic'']"
  by (simp add: predict_def serve_def Let_def)




text \<open>
  C7. For every batch, the output of either predictor has a \<open>toxicity_score\<close> field
  whose first dimension is the length of the batch.
\<close>

theorem C7_batch_length:
  "map_option batch_length (map_of (predict batch) ''toxicity_score'') = Some (length batch)
   \<and> map_option batch_length (map_of (serve self batch) ''toxicity_score'') = Some (length batch)"
  by (simp add: predict_scores serve_scores Dense_length reshape_column_def)

text \<open>
  C8. On the empty batch either predictor returns its output mapping with every field
  an empty batch. Neither function has a failing branch.
\<close>

theorem C8_empty_batch:
  "predict [] = [(''toxicity_score'', Float32 []), (''text_length'', Int32 []), (''predictions'', Float32 [])]
   \<and> serve self [] = [(''toxicity_score'', Float32_2D []), (''is_toxic'', Bool_2D [])]"
  by (simp add: predict_def serve_def strings_length_def cast_float32_def divide_float32_def
      minimum_def Dense_def reshape_column_def Let_def)

text \<open>
  C9. In the mock-length script the \<open>predictions\<close> field is present and is the same
  tensor as \<open>toxicity_score\<close>, for every batch.
\<close>

theorem C9_predictions_same_as_scores:
  "map_of (predict batch) ''predictions'' = map_of (predict batch) ''toxicity_score''
   \<and> map_of (predict batch) ''predictions'' \<noteq> None"
  by (simp add: predict_def Let_def)

text \<open>
  C10. In the random-weights script \<open>is_toxic\<close> has the shape of \<open>toxicity_score\<close>, and
  each of its elements is true exactly when the score at the same place is strictly
  greater than one half, for every batch and all weights.
\<close>

theorem C10_is_toxic_threshold:
  "\<exists>scores flags.
      map_of (serve self batch) ''toxicity_score'' = Some (Float32_2D scores)
    \<and> map_of (serve self batch) ''is_toxic'' = Some (Bool_2D flags)
    \<and> list_all2 (list_all2 (\<lambda>flag score. flag \<longleftrightarrow> 1 / 2 < score)) flags scores"
proof -
  define toxicity where
    "toxicity = Dense sigmoid (dense2_kernel self) (dense2_bias self)
       (Dense relu (dense1_kernel self) (dense1_bias self) (reshape_column (map preprocess batch)))"
  have out: "serve self batch =
      [(''toxicity_score'', Float32_2D toxicity),
       (''is_toxic'', Bool_2D (map (map (\<lambda>t. 1 / 2 < t)) toxicity))]"
    by (simp add: serve_def toxicity_def Let_def)
  show ?thesis
  proof (intro exI conjI)
    show "map_of (serve self batch) ''toxicity_score'' = Some (Float32_2D toxicity)"
      by (simp add: out)
    show "map_of (serve self batch) ''is_toxic''
        = Some (Bool_2D (map (map (\<lambda>t. 1 / 2 < t)) toxicity))"
      by (simp add: out)
    show "list_all2 (list_all2 (\<lambda>flag score. flag \<longleftrightarrow> 1 / 2 < score))
        (map (map (\<lambda>t. 1 / 2 < t)) toxicity) toxicity"
      by (rule list_all2_map_map_same)
  qed
qed

end
